theory Spec2Isabelle
  imports Complex_Main
begin

section \<open>Conventions of the embedding\<close>

text \<open>
  The three Python modules compute with \<open>float\<close> and \<open>int\<close>. A Python \<open>float\<close> is
  modelled as an exact \<open>real\<close>: rounding, overflow to infinity and NaN are not modelled, so
  every statement below is about the formulas and the control flow of the code in exact
  arithmetic. A Python \<open>int\<close> is an \<open>int\<close>. An exception is a value of \<open>py_error\<close>, and a
  function that may raise returns \<open>py_error + 'a\<close>, with \<open>Inl\<close> for the exception.
\<close>

datatype py_error = ValueError | ZeroDivisionError | StopIteration | AttributeError

definition bindE :: "py_error + 'a \<Rightarrow> ('a \<Rightarrow> py_error + 'b) \<Rightarrow> py_error + 'b" where
  "bindE m f = (case m of Inl e \<Rightarrow> Inl e | Inr x \<Rightarrow> f x)"

text \<open>Python's \<open>x / y\<close> on floats: raises \<open>ZeroDivisionError\<close> when the divisor is zero.\<close>

definition fdiv :: "real \<Rightarrow> real \<Rightarrow> py_error + real" where
  "fdiv x y = (if y = 0 then Inl ZeroDivisionError else Inr (x / y))"

text \<open>The literal \<open>1e-12\<close>, the floor the code puts under its divisors.\<close>

definition eps12 :: real where
  "eps12 = 1 / 10 ^ 12"

section \<open>The simplified annual model (h2verde_tea)\<close>

subsection \<open>Data classes\<close>

record EspecificacaoEletrolisador =
  nome :: string
  sec_kwh_por_kg :: real
  fracao_minima_carga :: real
  disponibilidade :: real
  potencia_kw :: real
  vida_util_anos :: int
  degradacao_pct_ano :: real
  fracao_reposicao_stack_capex :: real

record BalanceOfPlant =
  fracao_capex_bop :: real
  om_fixo_pct_capex_ano :: real
  om_variavel_por_kg :: real

record TarifaEnergia =
  preco_mwh :: real
  demanda_kw_mes :: real
  demanda_contratada_kw :: real

record AguaUtilidades =
  custo_agua_m3 :: real
  litros_por_kg :: real

record CompressaoArmazenamentoEntrega =
  pressao_entrega_bar :: real
  energia_compressao_kwh_por_kg :: real
  capex_armazenamento_por_kg :: real
  horas_buffer :: real
  secagem_purificacao_por_kg :: real

record Financiamento =
  wacc_real :: real
  inflacao_pct :: real
  vida_projeto_anos :: int
  fracao_divida :: real
  contingencia_capex_pct :: real

record CapexDetalhado =
  eletrolisador_capex_por_kw :: real
  fracao_bop :: real
  instalacao_pct :: real
  custos_dono_pct :: real
  interconexao_por_kw :: real
  capex_tratamento_agua :: real
  compressor_capex_por_kg_h :: real

record CenarioEntrada =
  moeda :: string
  eletrolisador :: EspecificacaoEletrolisador
  bop :: BalanceOfPlant
  energia :: TarifaEnergia
  agua :: AguaUtilidades
  cae :: CompressaoArmazenamentoEntrega
  financiamento :: Financiamento
  capex :: CapexDetalhado
  fator_capacidade_anual :: real
  horas_ano :: int
  emissoes_rede_kg_mwh :: real

record ItemLinha =
  nome :: string
  valor :: real
  unidade :: string

text \<open>\<open>CenarioEntrada.validar\<close>: raises \<open>ValueError\<close> unless the capacity factor is in [0, 1].\<close>

definition validar :: "CenarioEntrada \<Rightarrow> py_error + unit" where
  "validar c =
     (if \<not> (0 \<le> fator_capacidade_anual c \<and> fator_capacidade_anual c \<le> 1)
      then Inl ValueError else Inr ())"

subsection \<open>Financial functions\<close>

definition fator_recuperacao_capital :: "real \<Rightarrow> int \<Rightarrow> py_error + real" where
  "fator_recuperacao_capital wacc anos =
     (let i = wacc in
      if anos \<le> 0 then Inr 1
      else if i = 0 then fdiv 1 (of_int anos)
      else fdiv (i * (1 + i) ^ nat anos) ((1 + i) ^ nat anos - 1))"

definition anualizar_capex :: "real \<Rightarrow> real \<Rightarrow> int \<Rightarrow> py_error + real" where
  "anualizar_capex capex_total wacc anos =
     bindE (fator_recuperacao_capital wacc anos) (\<lambda>f. Inr (capex_total * f))"

subsection \<open>Technical model\<close>

definition consumo_especifico_ano :: "EspecificacaoEletrolisador \<Rightarrow> int \<Rightarrow> real" where
  "consumo_especifico_ano e ano =
     (let crescimento = (1 + degradacao_pct_ano e / 100) ^ nat (max 0 (ano - 1))
      in sec_kwh_por_kg e * crescimento)"

definition producao_anual_kg :: "EspecificacaoEletrolisador \<Rightarrow> real \<Rightarrow> int \<Rightarrow> py_error + real" where
  "producao_anual_kg e fator_cf h_ano =
     (let horas_efetivas = of_int h_ano * fator_cf * disponibilidade e
      in fdiv (potencia_kw e * horas_efetivas) (max (sec_kwh_por_kg e) eps12))"

definition capacidade_armazenamento_kg ::
  "CompressaoArmazenamentoEntrega \<Rightarrow> real \<Rightarrow> real \<Rightarrow> py_error + real" where
  "capacidade_armazenamento_kg ca h2_anual_kg h_ano =
     bindE (fdiv h2_anual_kg (max h_ano eps12)) (\<lambda>media_kg_h. Inr (media_kg_h * horas_buffer ca))"

subsection \<open>Line-item names\<close>

text \<open>
  The item names are Python strings; the letters outside ASCII are written as their UTF-8
  bytes. Only \<open>Total CAPEX\<close> is ever compared.
\<close>

definition nome_interconexao :: string where
  "nome_interconexao = ''Interconex'' @ [CHR 0xC3, CHR 0xA3] @ ''o''"

definition nome_tratamento_agua :: string where
  "nome_tratamento_agua = ''Tratamento '' @ [CHR 0xC3, CHR 0x81] @ ''gua''"

definition nome_instalacao :: string where
  "nome_instalacao = ''Instala'' @ [CHR 0xC3, CHR 0xA7, CHR 0xC3, CHR 0xA3] @ ''o/EPC''"

definition nome_contingencia :: string where
  "nome_contingencia = ''Conting'' @ [CHR 0xC3, CHR 0xAA] @ ''ncia''"

definition nome_reposicao_stack :: string where
  "nome_reposicao_stack =
     ''Reposi'' @ [CHR 0xC3, CHR 0xA7, CHR 0xC3, CHR 0xA3] @ ''o Stack (anual eq.)''"

definition nome_eletricidade :: string where
  "nome_eletricidade =
     ''Eletricidade (Eletr'' @ [CHR 0xC3, CHR 0xB3] @ ''lise+Compress'' @ [CHR 0xC3, CHR 0xA3] @ ''o)''"

definition nome_sec_medio :: string where
  "nome_sec_medio =
     ''SEC M'' @ [CHR 0xC3, CHR 0xA9] @ ''dio (incl. compress'' @ [CHR 0xC3, CHR 0xA3] @ ''o)''"

definition nome_custo_agua :: string where
  "nome_custo_agua = ''Custo '' @ [CHR 0xC3, CHR 0x81] @ ''gua''"

definition nome_om_variavel :: string where
  "nome_om_variavel = ''O&M Vari'' @ [CHR 0xC3, CHR 0xA1] @ ''vel''"

definition item :: "string \<Rightarrow> real \<Rightarrow> string \<Rightarrow> ItemLinha" where
  "item n v u = \<lparr>nome = n, valor = v, unidade = u\<rparr>"

subsection \<open>Techno-economic simulation\<close>

text \<open>\<open>next(i.valor for i in itens if i.nome == "Total CAPEX")\<close>: the first match, or
  \<open>StopIteration\<close> when there is none.\<close>

definition valor_total_capex :: "ItemLinha list \<Rightarrow> py_error + real" where
  "valor_total_capex itens =
     (case filter (\<lambda>i. nome i = ''Total CAPEX'') itens of
        [] \<Rightarrow> Inl StopIteration
      | i # _ \<Rightarrow> Inr (valor i))"

definition calcular_capex :: "CenarioEntrada \<Rightarrow> py_error + ItemLinha list" where
  "calcular_capex c =
     (let p_kw = potencia_kw (eletrolisador c);
          eletrolisador_v = p_kw * eletrolisador_capex_por_kw (CenarioEntrada.capex c);
          bop_v = eletrolisador_v * fracao_bop (CenarioEntrada.capex c);
          interconexao = p_kw * interconexao_por_kw (CenarioEntrada.capex c)
      in bindE (fdiv p_kw (max (sec_kwh_por_kg (eletrolisador c)) eps12)) (\<lambda>kg_h.
         let compressor = kg_h * compressor_capex_por_kg_h (CenarioEntrada.capex c)
         in bindE (producao_anual_kg (eletrolisador c) (fator_capacidade_anual c) (horas_ano c)) (\<lambda>h2_anual.
            bindE (capacidade_armazenamento_kg (cae c) h2_anual
                     (of_int (horas_ano c) * disponibilidade (eletrolisador c))) (\<lambda>cap_kg.
            let armazenamento = cap_kg * capex_armazenamento_por_kg (cae c);
                agua_v = capex_tratamento_agua (CenarioEntrada.capex c);
                diretos = eletrolisador_v + bop_v + interconexao + compressor + armazenamento + agua_v;
                instalacao = diretos * (instalacao_pct (CenarioEntrada.capex c) / 100);
                custos_dono = diretos * (custos_dono_pct (CenarioEntrada.capex c) / 100);
                contingencia = (diretos + instalacao + custos_dono)
                                 * (contingencia_capex_pct (financiamento c) / 100);
                total = diretos + instalacao + custos_dono + contingencia
            in Inr [item ''Eletrolisador'' eletrolisador_v (moeda c),
                    item ''Balance of Plant'' bop_v (moeda c),
                    item nome_interconexao interconexao (moeda c),
                    item ''Compressor'' compressor (moeda c),
                    item ''Armazenamento Buffer'' armazenamento (moeda c),
                    item nome_tratamento_agua agua_v (moeda c),
                    item nome_instalacao instalacao (moeda c),
                    item ''Custos do Dono'' custos_dono (moeda c),
                    item nome_contingencia contingencia (moeda c),
                    item ''Total CAPEX'' total (moeda c)]))))"

definition calcular_opex_fixo :: "CenarioEntrada \<Rightarrow> ItemLinha list \<Rightarrow> py_error + ItemLinha list" where
  "calcular_opex_fixo c itens_capex =
     bindE (valor_total_capex itens_capex) (\<lambda>total_capex.
       let om_fixo = total_capex * om_fixo_pct_capex_ano (bop c);
           demanda = (if demanda_kw_mes (energia c) > 0
                      then demanda_kw_mes (energia c) * demanda_contratada_kw (energia c) * 12
                      else 0)
       in Inr [item ''O&M Fixo (% CAPEX)'' om_fixo (moeda c),
               item ''Custo Demanda (anual)'' demanda (moeda c)])"

definition calcular_energia_var ::
  "CenarioEntrada \<Rightarrow> real \<Rightarrow> ItemLinha list \<times> ItemLinha list \<times> real \<times> real" where
  "calcular_energia_var c h2_anual =
     (let sec = sec_kwh_por_kg (eletrolisador c);
          comp = energia_compressao_kwh_por_kg (cae c);
          total_kwh_kg = sec + comp;
          mwh = (total_kwh_kg * h2_anual) / 1000;
          custo_energia = mwh * preco_mwh (energia c);
          m3_agua = (litros_por_kg (agua c) / 1000) * h2_anual;
          custo_agua = m3_agua * custo_agua_m3 (agua c);
          vom = om_variavel_por_kg (bop c) * h2_anual + secagem_purificacao_por_kg (cae c) * h2_anual;
          itens_energia = [item nome_eletricidade mwh ''MWh/ano'',
                           item nome_sec_medio total_kwh_kg ''kWh/kg''];
          itens_var = [item ''Custo Energia'' custo_energia (moeda c),
                       item nome_custo_agua custo_agua (moeda c),
                       item nome_om_variavel vom (moeda c)]
      in (itens_energia, itens_var, mwh, total_kwh_kg))"

text \<open>The dictionary \<open>simular\<close> returns, one field per key.\<close>

record Resultado =
  lcoh :: real
  h2_anual_kg :: real
  mwh_anual :: real
  emissoes_kgco2_por_kg :: real
  capex :: "ItemLinha list"
  opex_fixo :: "ItemLinha list"
  opex_variavel :: "ItemLinha list"
  energia :: "ItemLinha list"

definition simular :: "CenarioEntrada \<Rightarrow> py_error + Resultado" where
  "simular c =
     bindE (validar c) (\<lambda>_.
     bindE (calcular_capex c) (\<lambda>itens_capex.
     bindE (valor_total_capex itens_capex) (\<lambda>total_capex.
     bindE (producao_anual_kg (eletrolisador c) (fator_capacidade_anual c) (horas_ano c)) (\<lambda>h2_anual.
     case calcular_energia_var c h2_anual of (itens_energia, itens_var, mwh, kwh_por_kg) \<Rightarrow>
     bindE (calcular_opex_fixo c itens_capex) (\<lambda>itens_fixos.
     let custo_fixo = sum_list (map valor itens_fixos);
         custo_variavel = sum_list (map valor itens_var);
         base_stack = (eletrolisador_capex_por_kw (CenarioEntrada.capex c) * potencia_kw (eletrolisador c))
                        * fracao_reposicao_stack_capex (eletrolisador c)
     in bindE (fdiv base_stack (of_int (max (vida_util_anos (eletrolisador c)) 1))) (\<lambda>reposicao_anual_equiv.
        bindE (anualizar_capex total_capex (wacc_real (financiamento c))
                 (vida_projeto_anos (financiamento c))) (\<lambda>capex_anual.
        let custo_total_anual = capex_anual + custo_fixo + custo_variavel + reposicao_anual_equiv
        in bindE (fdiv custo_total_anual (max h2_anual eps12)) (\<lambda>lcoh_v.
           let emissoes = (kwh_por_kg / 1000) * emissoes_rede_kg_mwh c
           in Inr \<lparr>lcoh = lcoh_v,
                   h2_anual_kg = h2_anual,
                   mwh_anual = mwh,
                   emissoes_kgco2_por_kg = emissoes,
                   capex = itens_capex,
                   opex_fixo = itens_fixos,
                   opex_variavel = itens_var @ [item nome_reposicao_stack reposicao_anual_equiv (moeda c)],
                   energia = itens_energia\<rparr>))))))))"

text \<open>\<open>CenarioEntrada()\<close>: the defaults of the data classes.\<close>

definition cenario_padrao :: CenarioEntrada where
  "cenario_padrao =
     \<lparr>moeda = ''BRL'',
      eletrolisador = \<lparr>EspecificacaoEletrolisador.nome = ''PEM_5MW_referencia'',
        sec_kwh_por_kg = 52, fracao_minima_carga = 0.10, disponibilidade = 0.97,
        potencia_kw = 5000, vida_util_anos = 8, degradacao_pct_ano = 0.5,
        fracao_reposicao_stack_capex = 0.25\<rparr>,
      bop = \<lparr>fracao_capex_bop = 0.35, om_fixo_pct_capex_ano = 0.03, om_variavel_por_kg = 0.20\<rparr>,
      energia = \<lparr>preco_mwh = 350, demanda_kw_mes = 0, demanda_contratada_kw = 0\<rparr>,
      agua = \<lparr>custo_agua_m3 = 5, litros_por_kg = 9\<rparr>,
      cae = \<lparr>pressao_entrega_bar = 350, energia_compressao_kwh_por_kg = 2.5,
        capex_armazenamento_por_kg = 400, horas_buffer = 4, secagem_purificacao_por_kg = 0.10\<rparr>,
      financiamento = \<lparr>wacc_real = 0.10, inflacao_pct = 4, vida_projeto_anos = 20,
        fracao_divida = 0.60, contingencia_capex_pct = 10\<rparr>,
      capex = \<lparr>eletrolisador_capex_por_kw = 700, fracao_bop = 0.35, instalacao_pct = 12,
        custos_dono_pct = 5, interconexao_por_kw = 80, capex_tratamento_agua = 200000,
        compressor_capex_por_kg_h = 1200\<rparr>,
      fator_capacidade_anual = 0.85, horas_ano = 8760, emissoes_rede_kg_mwh = 80\<rparr>"

section \<open>The lifetime model (h2verde_tea_eho)\<close>

subsection \<open>Inputs\<close>

record EHOElectrolyser =
  power_kw :: real
  sec_start_kwh_per_kg :: real
  stack_durability_h :: real
  degradation_pct_per_1000h :: real
  compression_kwh_per_kg :: real

record EHOEconomics =
  economic_life_years :: int
  discount_rate :: real
  other_opex_pct_capex_per_year :: real
  stack_replacement_pct_capex :: real
  electricity_price_eur_per_mwh :: real
  grid_fees_eur_per_mwh :: real
  electricity_taxes_eur_per_mwh :: real

record EHOCAPEX =
  electrolyser_capex_eur_per_kw :: real
  installed_power_kw :: real

record EHOSubsidiesAndRevenues =
  capex_subsidy_eur_per_kw :: real
  h2_premium_eur_per_kg :: real
  reduction_grid_or_tax_eur_per_mwh :: real
  oxygen_sale_price_eur_per_ton :: real

record EHOOperatingProfile =
  operating_hours_per_year :: real
  availability :: real

record EHOScenario =
  electrolyser :: EHOElectrolyser
  economics :: EHOEconomics
  capex :: EHOCAPEX
  subs :: EHOSubsidiesAndRevenues
  ops :: EHOOperatingProfile
  currency :: string

text \<open>\<open>EHOScenario()\<close>: the defaults of the data classes.\<close>

definition eho_padrao :: EHOScenario where
  "eho_padrao =
     \<lparr>electrolyser = \<lparr>power_kw = 5000, sec_start_kwh_per_kg = 52.4, stack_durability_h = 80000,
        degradation_pct_per_1000h = 0.12, compression_kwh_per_kg = 2.5\<rparr>,
      economics = \<lparr>economic_life_years = 25, discount_rate = 0.06,
        other_opex_pct_capex_per_year = 0.03, stack_replacement_pct_capex = 0.25,
        electricity_price_eur_per_mwh = 50, grid_fees_eur_per_mwh = 0,
        electricity_taxes_eur_per_mwh = 0\<rparr>,
      capex = \<lparr>electrolyser_capex_eur_per_kw = 700, installed_power_kw = 5000\<rparr>,
      subs = \<lparr>capex_subsidy_eur_per_kw = 0, h2_premium_eur_per_kg = 0,
        reduction_grid_or_tax_eur_per_mwh = 0, oxygen_sale_price_eur_per_ton = 0\<rparr>,
      ops = \<lparr>operating_hours_per_year = 4000, availability = 1\<rparr>,
      currency = ''EUR''\<rparr>"

subsection \<open>Utilities\<close>

definition crf :: "real \<Rightarrow> int \<Rightarrow> py_error + real" where
  "crf i n =
     (if n \<le> 0 then Inr 1
      else if i = 0 then fdiv 1 (of_int n)
      else fdiv (i * (1 + i) ^ nat n) ((1 + i) ^ nat n - 1))"

subsection \<open>Calculations\<close>

text \<open>Eq. 2. \<open>int(math.floor(x))\<close> is the integer floor.\<close>

definition stack_replacements :: "int \<Rightarrow> real \<Rightarrow> real \<Rightarrow> py_error + int" where
  "stack_replacements econ_years op_hours_per_year durability_h =
     bindE (fdiv (of_int econ_years * op_hours_per_year) (max durability_h eps12))
       (\<lambda>q. Inr \<lfloor>q\<rfloor>)"

text \<open>The literal \<open>1e-9\<close>, the tolerance of the loop of Eq. 3, and its step of 1000 hours.\<close>

definition tol9 :: real where
  "tol9 = 1 / 10 ^ 9"

definition step :: real where
  "step = 1000"

text \<open>The variables the loop of \<open>average_sec_kwh_per_kg_over_life\<close> updates.\<close>

record sec_state =
  sec_sum :: real
  hours_counted :: real
  hours_until_reset :: real
  current_sec :: real

text \<open>One pass through the body of the \<open>while\<close>.\<close>

definition sec_body :: "real \<Rightarrow> real \<Rightarrow> real \<Rightarrow> real \<Rightarrow> sec_state \<Rightarrow> sec_state" where
  "sec_body sec0 degr_pct_per_1000h total_hours durability_h st =
     (let block = min step (min (total_hours - hours_counted st) (hours_until_reset st));
          rate_per_h = (degr_pct_per_1000h / 100) / 1000;
          sec_end = current_sec st * (1 + rate_per_h * block);
          sec_block_avg = (current_sec st + sec_end) / 2;
          st1 = \<lparr>sec_sum = sec_sum st + sec_block_avg * block,
                 hours_counted = hours_counted st + block,
                 hours_until_reset = hours_until_reset st - block,
                 current_sec = sec_end\<rparr>
      in if hours_until_reset st1 \<le> tol9 \<and> hours_counted st1 < total_hours - tol9
         then st1\<lparr>current_sec := sec0, hours_until_reset := durability_h\<rparr>
         else st1)"

text \<open>The \<open>while\<close> loop; \<open>None\<close> is a loop that never ends.\<close>

partial_function (option) sec_loop ::
  "real \<Rightarrow> real \<Rightarrow> real \<Rightarrow> real \<Rightarrow> sec_state \<Rightarrow> sec_state option" where
  "sec_loop sec0 degr_pct_per_1000h total_hours durability_h st =
     (if hours_counted st < total_hours - tol9
      then sec_loop sec0 degr_pct_per_1000h total_hours durability_h
             (sec_body sec0 degr_pct_per_1000h total_hours durability_h st)
      else Some st)"

text \<open>Eq. 3. The result is \<open>None\<close> when the loop does not end.\<close>

definition average_sec_kwh_per_kg_over_life ::
  "real \<Rightarrow> real \<Rightarrow> int \<Rightarrow> real \<Rightarrow> real \<Rightarrow> (py_error + real) option" where
  "average_sec_kwh_per_kg_over_life sec0 degr_pct_per_1000h econ_years op_hours_per_year durability_h =
     (let total_hours = of_int econ_years * op_hours_per_year
      in case stack_replacements econ_years op_hours_per_year durability_h of
           Inl e \<Rightarrow> Some (Inl e)
         | Inr repls \<Rightarrow>
             map_option (\<lambda>st. fdiv (sec_sum st) (max total_hours eps12))
               (sec_loop sec0 degr_pct_per_1000h total_hours durability_h
                  \<lparr>sec_sum = 0, hours_counted = 0, hours_until_reset = durability_h,
                   current_sec = sec0\<rparr>))"

definition capacity_kg_per_h :: "real \<Rightarrow> real \<Rightarrow> py_error + real" where
  "capacity_kg_per_h p_kw avg_sec_kwh_per_kg = fdiv p_kw (max avg_sec_kwh_per_kg eps12)"

definition hydrogen_output_kg :: "real \<Rightarrow> real \<Rightarrow> int \<Rightarrow> real" where
  "hydrogen_output_kg op_hours_per_year capacity_kg_h econ_years =
     op_hours_per_year * capacity_kg_h * of_int econ_years"

definition electricity_consumption_mwh :: "real \<Rightarrow> real \<Rightarrow> real" where
  "electricity_consumption_mwh h2_output_kg avg_sec_kwh_per_kg =
     (h2_output_kg * avg_sec_kwh_per_kg) / 1000"

definition add_compression_to_sec :: "real \<Rightarrow> real \<Rightarrow> real" where
  "add_compression_to_sec avg_sec_kwh_per_kg compression = avg_sec_kwh_per_kg + max compression 0"

definition electrolyser_capex_eur :: "real \<Rightarrow> real \<Rightarrow> real" where
  "electrolyser_capex_eur capex_eur_per_kw installed_kw = capex_eur_per_kw * installed_kw"

definition annualised_capex_eur_per_year :: "real \<Rightarrow> real \<Rightarrow> int \<Rightarrow> py_error + real" where
  "annualised_capex_eur_per_year capex_v i n_years = bindE (crf i n_years) (\<lambda>f. Inr (capex_v * f))"

definition electricity_cost_eur :: "real \<Rightarrow> real \<Rightarrow> real" where
  "electricity_cost_eur electricity_mwh price_eur_per_mwh = electricity_mwh * price_eur_per_mwh"

definition electricity_cost_eur_per_kg :: "real \<Rightarrow> real \<Rightarrow> py_error + real" where
  "electricity_cost_eur_per_kg cost_eur h2_output_kg = fdiv cost_eur (max h2_output_kg eps12)"

definition other_opex_total_eur :: "real \<Rightarrow> real \<Rightarrow> int \<Rightarrow> real" where
  "other_opex_total_eur capex_v pct_per_year econ_years = capex_v * pct_per_year * of_int econ_years"

definition stack_replacement_total_eur :: "real \<Rightarrow> real \<Rightarrow> int \<Rightarrow> real" where
  "stack_replacement_total_eur capex_v pct_capex n_repl = capex_v * pct_capex * of_int n_repl"

definition other_opex_eur_per_kg :: "real \<Rightarrow> real \<Rightarrow> real \<Rightarrow> py_error + real" where
  "other_opex_eur_per_kg other_opex_eur stack_eur h2_output_kg =
     fdiv (other_opex_eur + stack_eur) (max h2_output_kg eps12)"

definition grid_fees_total_eur :: "real \<Rightarrow> real \<Rightarrow> real" where
  "grid_fees_total_eur electricity_mwh grid_fee_eur_per_mwh = electricity_mwh * grid_fee_eur_per_mwh"

definition grid_fees_eur_per_kg :: "real \<Rightarrow> real \<Rightarrow> py_error + real" where
  "grid_fees_eur_per_kg grid_eur h2_output_kg = fdiv grid_eur (max h2_output_kg eps12)"

definition taxes_total_eur :: "real \<Rightarrow> real \<Rightarrow> real" where
  "taxes_total_eur electricity_mwh taxes_eur_per_mwh = electricity_mwh * taxes_eur_per_mwh"

definition taxes_eur_per_kg :: "real \<Rightarrow> real \<Rightarrow> py_error + real" where
  "taxes_eur_per_kg taxes_eur h2_output_kg = fdiv taxes_eur (max h2_output_kg eps12)"

definition subsidies_total_eur :: "real \<Rightarrow> real \<Rightarrow> real \<Rightarrow> real \<Rightarrow> real \<Rightarrow> real \<Rightarrow> real" where
  "subsidies_total_eur capex_kw grant_eur_per_kw h2_output_kg premium_eur_per_kg
       electricity_mwh reduction_eur_per_mwh =
     (let capex_grant = grant_eur_per_kw * capex_kw;
          premium = premium_eur_per_kg * h2_output_kg;
          reduction = reduction_eur_per_mwh * electricity_mwh
      in capex_grant + premium + reduction)"

definition subsidies_eur_per_kg :: "real \<Rightarrow> real \<Rightarrow> py_error + real" where
  "subsidies_eur_per_kg subsidies_eur h2_output_kg = fdiv (- subsidies_eur) (max h2_output_kg eps12)"

definition oxygen_output_kg :: "real \<Rightarrow> real" where
  "oxygen_output_kg h2_output_kg = h2_output_kg * 8"

definition oxygen_revenues_total_eur :: "real \<Rightarrow> real \<Rightarrow> real" where
  "oxygen_revenues_total_eur o2_output_kg o2_price_eur_per_ton =
     (o2_output_kg / 1000) * o2_price_eur_per_ton"

definition oxygen_revenues_eur_per_kg :: "real \<Rightarrow> real \<Rightarrow> py_error + real" where
  "oxygen_revenues_eur_per_kg o2_total_eur h2_output_kg = fdiv (- o2_total_eur) (max h2_output_kg eps12)"

subsection \<open>Simulation\<close>

text \<open>
  The dictionary \<open>simulate_eho\<close> returns: the total, the seven terms of
  \<open>breakdown_eur_per_kg\<close> and the nine entries of \<open>lifetime_totals\<close>, each under the name of
  the local variable that holds it.
\<close>

record EHOResult =
  res_currency :: string
  lcoh_total :: real
  lcoh_capex_eur_per_kg :: real
  lcoh_electricity :: real
  lcoh_other_opex :: real
  lcoh_grid :: real
  lcoh_taxes :: real
  lcoh_subs :: real
  lcoh_o2 :: real
  h2_total_kg :: real
  elec_mwh :: real
  n_repl :: int
  avg_sec_total_kwh_kg :: real
  capex_eur :: real
  grid_eur :: real
  tax_eur :: real
  subs_eur_total :: real
  o2_eur :: real

text \<open>Everything \<open>simulate_eho\<close> does after the average of Eq. 3 is known.\<close>

definition simulate_eho_rest :: "EHOScenario \<Rightarrow> real \<Rightarrow> int \<Rightarrow> real \<Rightarrow> py_error + EHOResult" where
  "simulate_eho_rest s op_hours n_repl_v avg_sec_el_kwh_kg =
     (let e = electrolyser s; ec = economics s; cap = EHOScenario.capex s; sb = subs s;
          avg_sec_total = add_compression_to_sec avg_sec_el_kwh_kg (compression_kwh_per_kg e)
      in bindE (capacity_kg_per_h (power_kw e) avg_sec_total) (\<lambda>cap_kg_h.
         let h2_total = hydrogen_output_kg op_hours cap_kg_h (economic_life_years ec);
             elec = electricity_consumption_mwh h2_total avg_sec_total;
             capex_v = electrolyser_capex_eur (electrolyser_capex_eur_per_kw cap) (installed_power_kw cap)
         in bindE (annualised_capex_eur_per_year capex_v (discount_rate ec) (economic_life_years ec))
              (\<lambda>ann_capex_eur_year.
            bindE (fdiv h2_total (of_int (economic_life_years ec))) (\<lambda>h2_per_year.
            bindE (fdiv ann_capex_eur_year (max h2_per_year eps12)) (\<lambda>l_capex.
            let elec_cost_eur = electricity_cost_eur elec (electricity_price_eur_per_mwh ec)
            in bindE (electricity_cost_eur_per_kg elec_cost_eur h2_total) (\<lambda>l_electricity.
               let other_eur = other_opex_total_eur capex_v (other_opex_pct_capex_per_year ec)
                                 (economic_life_years ec);
                   stack_eur = stack_replacement_total_eur capex_v (stack_replacement_pct_capex ec) n_repl_v
               in bindE (other_opex_eur_per_kg other_eur stack_eur h2_total) (\<lambda>l_other_opex.
                  let grid_v = grid_fees_total_eur elec (grid_fees_eur_per_mwh ec)
                  in bindE (grid_fees_eur_per_kg grid_v h2_total) (\<lambda>l_grid.
                     let tax_v = taxes_total_eur elec (electricity_taxes_eur_per_mwh ec)
                     in bindE (taxes_eur_per_kg tax_v h2_total) (\<lambda>l_taxes.
                        let subs_v = subsidies_total_eur (installed_power_kw cap)
                                       (capex_subsidy_eur_per_kw sb) h2_total (h2_premium_eur_per_kg sb)
                                       elec (reduction_grid_or_tax_eur_per_mwh sb)
                        in bindE (subsidies_eur_per_kg subs_v h2_total) (\<lambda>l_subs.
                           let o2_kg = oxygen_output_kg h2_total;
                               o2_v = oxygen_revenues_total_eur o2_kg (oxygen_sale_price_eur_per_ton sb)
                           in bindE (oxygen_revenues_eur_per_kg o2_v h2_total) (\<lambda>l_o2.
                              Inr \<lparr>res_currency = currency s,
                                   lcoh_total = l_capex + l_electricity + l_other_opex
                                                  + l_grid + l_taxes + l_subs + l_o2,
                                   lcoh_capex_eur_per_kg = l_capex,
                                   lcoh_electricity = l_electricity,
                                   lcoh_other_opex = l_other_opex,
                                   lcoh_grid = l_grid,
                                   lcoh_taxes = l_taxes,
                                   lcoh_subs = l_subs,
                                   lcoh_o2 = l_o2,
                                   h2_total_kg = h2_total,
                                   elec_mwh = elec,
                                   n_repl = n_repl_v,
                                   avg_sec_total_kwh_kg = avg_sec_total,
                                   capex_eur = capex_v,
                                   grid_eur = grid_v,
                                   tax_eur = tax_v,
                                   subs_eur_total = subs_v,
                                   o2_eur = o2_v\<rparr>)))))))))))"

text \<open>\<open>simulate_eho\<close>: \<open>None\<close> when the loop of Eq. 3 does not end, \<open>Some (Inl e)\<close> when an
  exception is raised, \<open>Some (Inr r)\<close> when the dictionary \<open>r\<close> is returned.\<close>

definition simulate_eho :: "EHOScenario \<Rightarrow> (py_error + EHOResult) option" where
  "simulate_eho s =
     (let e = electrolyser s; ec = economics s; op = ops s;
          op_hours = operating_hours_per_year op * availability op
      in case stack_replacements (economic_life_years ec) op_hours (stack_durability_h e) of
           Inl err \<Rightarrow> Some (Inl err)
         | Inr n_repl_v \<Rightarrow>
             (case average_sec_kwh_per_kg_over_life (sec_start_kwh_per_kg e)
                     (degradation_pct_per_1000h e) (economic_life_years ec) op_hours
                     (stack_durability_h e) of
                None \<Rightarrow> None
              | Some (Inl err) \<Rightarrow> Some (Inl err)
              | Some (Inr avg_sec_el_kwh_kg) \<Rightarrow>
                  Some (simulate_eho_rest s op_hours n_repl_v avg_sec_el_kwh_kg)))"

section \<open>Sensitivity driver (sensibilidade_h2verde): the tornado\<close>

text \<open>
  \<open>_set_attr_dotted\<close> walks attribute names with \<open>getattr\<close> and \<open>setattr\<close>; what it does on an
  arbitrary path depends on Python's reflection, so the driver below takes the setter as a
  parameter: any function from a scenario, a dotted path and a value to the changed
  scenario, or to the exception raised. \<open>_clone_cenario\<close> is a deep copy: the identity on
  values.
\<close>

type_synonym setter = "CenarioEntrada \<Rightarrow> string \<Rightarrow> real \<Rightarrow> py_error + CenarioEntrada"

definition clone_cenario :: "CenarioEntrada \<Rightarrow> CenarioEntrada" where
  "clone_cenario c = c"

text \<open>One parameter definition: the dictionary with the keys \<open>nome\<close>, \<open>path\<close>, \<open>baixo\<close>, \<open>alto\<close>.\<close>

record ParametroTornado =
  nome :: string
  path :: string
  baixo :: real
  alto :: real

record ResultadoTornado =
  nome :: string
  path :: string
  lcoh_referencia :: real
  valor_baixo :: real
  lcoh_baixo :: real
  valor_alto :: real
  lcoh_alto :: real
  delta :: real
  impacto_abs :: real

text \<open>The \<open>for\<close> loop of \<open>tornado_lcoh\<close>: the list \<open>resultados\<close> before it is sorted.\<close>

fun tornado_resultados ::
  "setter \<Rightarrow> CenarioEntrada \<Rightarrow> real \<Rightarrow> ParametroTornado list \<Rightarrow> py_error + ResultadoTornado list" where
  "tornado_resultados set_attr cenario_base lcoh_ref [] = Inr []"
| "tornado_resultados set_attr cenario_base lcoh_ref (p # ps) =
     (let v_lo = baixo p; v_hi = alto p
      in bindE (set_attr (clone_cenario cenario_base) (ParametroTornado.path p) v_lo) (\<lambda>c_lo.
         bindE (simular c_lo) (\<lambda>out_lo.
         let l_lo = lcoh out_lo
         in bindE (set_attr (clone_cenario cenario_base) (ParametroTornado.path p) v_hi) (\<lambda>c_hi.
            bindE (simular c_hi) (\<lambda>out_hi.
            let l_hi = lcoh out_hi
            in bindE (tornado_resultados set_attr cenario_base lcoh_ref ps) (\<lambda>resto.
               Inr (\<lparr>nome = ParametroTornado.nome p, path = ParametroTornado.path p,
                     lcoh_referencia = lcoh_ref,
                     valor_baixo = v_lo, lcoh_baixo = l_lo,
                     valor_alto = v_hi, lcoh_alto = l_hi,
                     delta = l_hi - l_lo, impacto_abs = \<bar>l_hi - l_lo\<bar>\<rparr> # resto)))))))"

text \<open>\<open>xs.sort(key=k, reverse=True)\<close>: a stable sort in descending order of the key, which
  keeps elements of equal key in their original order.\<close>

definition sort_reverse :: "('a \<Rightarrow> real) \<Rightarrow> 'a list \<Rightarrow> 'a list" where
  "sort_reverse k xs = rev (sort_key k (rev xs))"

definition tornado_lcoh ::
  "setter \<Rightarrow> CenarioEntrada \<Rightarrow> ParametroTornado list \<Rightarrow> py_error + ResultadoTornado list" where
  "tornado_lcoh set_attr cenario_base parametros =
     bindE (simular cenario_base) (\<lambda>base_out.
     let lcoh_ref = lcoh base_out
     in bindE (tornado_resultados set_attr cenario_base lcoh_ref parametros) (\<lambda>resultados.
        Inr (sort_reverse impacto_abs resultados)))"

text \<open>
  An instance of the setter, for the two float leaves the concrete run below changes:
  on these paths it stores the value in the leaf, as \<open>setattr\<close> does. Other paths are
  outside this instance, which answers them with \<open>AttributeError\<close>.
\<close>

definition set_attr_folhas :: setter where
  "set_attr_folhas c dotted v =
     (if dotted = ''bop.om_variavel_por_kg''
      then Inr (c\<lparr>bop := (bop c)\<lparr>om_variavel_por_kg := v\<rparr>\<rparr>)
      else if dotted = ''cae.secagem_purificacao_por_kg''
      then Inr (c\<lparr>cae := (cae c)\<lparr>secagem_purificacao_por_kg := v\<rparr>\<rparr>)
      else Inl AttributeError)"

section \<open>Concrete scenarios\<close>

text \<open>The default scenario with one operating hour a year and an availability of \<open>1e-13\<close>.\<close>

definition c6x :: CenarioEntrada where
  "c6x = cenario_padrao\<lparr>horas_ano := 1,
           eletrolisador := (eletrolisador cenario_padrao)\<lparr>disponibilidade := 1 / 10 ^ 13\<rparr>\<rparr>"

text \<open>The default scenario with a WACC of \<open>-2\<close>.\<close>

definition c5x :: CenarioEntrada where
  "c5x = cenario_padrao\<lparr>financiamento := (financiamento cenario_padrao)\<lparr>wacc_real := - 2\<rparr>\<rparr>"

text \<open>The default scenario with a nominal power of \<open>1e-20\<close> kW.\<close>

definition c1x :: CenarioEntrada where
  "c1x = cenario_padrao\<lparr>eletrolisador := (eletrolisador cenario_padrao)\<lparr>potencia_kw := 1 / 10 ^ 20\<rparr>\<rparr>"

text \<open>The default lifetime scenario with a stack durability of zero hours, and with an
  economic life of zero years.\<close>

definition eho_durability_zero :: EHOScenario where
  "eho_durability_zero =
     eho_padrao\<lparr>electrolyser := (electrolyser eho_padrao)\<lparr>stack_durability_h := 0\<rparr>\<rparr>"

definition eho_life_zero :: EHOScenario where
  "eho_life_zero =
     eho_padrao\<lparr>economics := (economics eho_padrao)\<lparr>economic_life_years := 0\<rparr>\<rparr>"

section \<open>Facts about the simplified annual model\<close>

subsection \<open>Guarded divisions do not raise\<close>

lemma eps12_pos: "0 < eps12"
  by (simp add: eps12_def)

lemma bindE_Inr: "bindE (Inr x) f = f x"
  by (simp add: bindE_def)

lemma bindE_Inl: "bindE (Inl e) f = Inl e"
  by (simp add: bindE_def)

lemma fdiv_floor: "fdiv x (max y eps12) = Inr (x / max y eps12)"
  using eps12_pos by (simp add: fdiv_def max_def)

lemma fdiv_vida: "fdiv x (of_int (max (v::int) 1)) = Inr (x / of_int (max v 1))"
  by (simp add: fdiv_def max_def)

lemma producao_anual_kg_eq:
  "producao_anual_kg e cf h =
     Inr (potencia_kw e * (of_int h * cf * disponibilidade e) / max (sec_kwh_por_kg e) eps12)"
  by (simp add: producao_anual_kg_def fdiv_floor)

lemma capacidade_armazenamento_kg_eq:
  "capacidade_armazenamento_kg ca h2 h = Inr (h2 / max h eps12 * horas_buffer ca)"
  by (simp add: capacidade_armazenamento_kg_def fdiv_floor bindE_Inr)

lemma nomes_ne:
  "nome_interconexao \<noteq> ''Total CAPEX''" "nome_tratamento_agua \<noteq> ''Total CAPEX''"
  "nome_instalacao \<noteq> ''Total CAPEX''" "nome_contingencia \<noteq> ''Total CAPEX''"
  by (simp_all add: nome_interconexao_def nome_tratamento_agua_def nome_instalacao_def
        nome_contingencia_def)

lemma calcular_capex_Inr:
  "\<exists>itens. calcular_capex c = Inr itens \<and> length itens = 10 \<and>
           valor_total_capex itens = Inr (valor (itens ! 9))"
  unfolding calcular_capex_def Let_def
  apply (simp only: fdiv_floor producao_anual_kg_eq capacidade_armazenamento_kg_eq bindE_Inr)
  apply (simp add: valor_total_capex_def item_def nomes_ne)
  done

lemma calcular_opex_fixo_Inr:
  "valor_total_capex itens = Inr tc \<Longrightarrow>
   calcular_opex_fixo c itens =
     Inr [item ''O&M Fixo (% CAPEX)'' (tc * om_fixo_pct_capex_ano (bop c)) (moeda c),
          item ''Custo Demanda (anual)''
            (if demanda_kw_mes (CenarioEntrada.energia c) > 0
             then demanda_kw_mes (CenarioEntrada.energia c)
                    * demanda_contratada_kw (CenarioEntrada.energia c) * 12
             else 0) (moeda c)]"
  by (simp add: calcular_opex_fixo_def bindE_Inr Let_def)

subsection \<open>What \<open>simular\<close> returns\<close>

lemma simular_invalid:
  "\<not> (0 \<le> fator_capacidade_anual c \<and> fator_capacidade_anual c \<le> 1) \<Longrightarrow> simular c = Inl ValueError"
  by (simp add: simular_def validar_def bindE_Inl)

lemma simular_crf_error:
  assumes "0 \<le> fator_capacidade_anual c" "fator_capacidade_anual c \<le> 1"
    and "fator_recuperacao_capital (wacc_real (financiamento c)) (vida_projeto_anos (financiamento c)) = Inl e"
  shows "simular c = Inl e"
proof -
  obtain itens where it: "calcular_capex c = Inr itens"
      "valor_total_capex itens = Inr (valor (itens ! 9))"
    using calcular_capex_Inr by blast
  show ?thesis
    using assms
    by (simp add: simular_def validar_def it calcular_opex_fixo_Inr[OF it(2)] bindE_Inr bindE_Inl
          producao_anual_kg_eq fdiv_vida anualizar_capex_def Let_def split: prod.splits)
qed

lemma simular_valid:
  assumes "0 \<le> fator_capacidade_anual c" "fator_capacidade_anual c \<le> 1"
    and "fator_recuperacao_capital (wacc_real (financiamento c)) (vida_projeto_anos (financiamento c)) = Inr k"
    and "calcular_capex c = Inr itens" "valor_total_capex itens = Inr tc"
    and "calcular_opex_fixo c itens = Inr fx"
    and "h2 = potencia_kw (eletrolisador c)
               * (of_int (horas_ano c) * fator_capacidade_anual c * disponibilidade (eletrolisador c))
               / max (sec_kwh_por_kg (eletrolisador c)) eps12"
    and "calcular_energia_var c h2 = (ie, iv, mwh, kpk)"
    and "rep = (eletrolisador_capex_por_kw (CenarioEntrada.capex c) * potencia_kw (eletrolisador c))
                  * fracao_reposicao_stack_capex (eletrolisador c)
                / of_int (max (vida_util_anos (eletrolisador c)) 1)"
  shows "simular c =
           Inr \<lparr>lcoh = (tc * k + sum_list (map valor fx) + sum_list (map valor iv) + rep) / max h2 eps12,
                h2_anual_kg = h2, mwh_anual = mwh,
                emissoes_kgco2_por_kg = (kpk / 1000) * emissoes_rede_kg_mwh c,
                capex = itens, opex_fixo = fx,
                opex_variavel = iv @ [item nome_reposicao_stack rep (moeda c)],
                energia = ie\<rparr>"
  using assms
  by (simp add: simular_def validar_def bindE_Inr producao_anual_kg_eq
        fdiv_vida anualizar_capex_def fdiv_floor Let_def)

subsection \<open>The degradation rate is not read\<close>

lemma sel_degradacao:
  "sec_kwh_por_kg (e\<lparr>degradacao_pct_ano := d\<rparr>) = sec_kwh_por_kg e"
  "disponibilidade (e\<lparr>degradacao_pct_ano := d\<rparr>) = disponibilidade e"
  "potencia_kw (e\<lparr>degradacao_pct_ano := d\<rparr>) = potencia_kw e"
  "vida_util_anos (e\<lparr>degradacao_pct_ano := d\<rparr>) = vida_util_anos e"
  "fracao_reposicao_stack_capex (e\<lparr>degradacao_pct_ano := d\<rparr>) = fracao_reposicao_stack_capex e"
  by simp_all

lemma sel_eletrolisador:
  "eletrolisador (c\<lparr>eletrolisador := e\<rparr>) = e"
  "moeda (c\<lparr>eletrolisador := e\<rparr>) = moeda c"
  "bop (c\<lparr>eletrolisador := e\<rparr>) = bop c"
  "CenarioEntrada.energia (c\<lparr>eletrolisador := e\<rparr>) = CenarioEntrada.energia c"
  "agua (c\<lparr>eletrolisador := e\<rparr>) = agua c"
  "cae (c\<lparr>eletrolisador := e\<rparr>) = cae c"
  "financiamento (c\<lparr>eletrolisador := e\<rparr>) = financiamento c"
  "CenarioEntrada.capex (c\<lparr>eletrolisador := e\<rparr>) = CenarioEntrada.capex c"
  "fator_capacidade_anual (c\<lparr>eletrolisador := e\<rparr>) = fator_capacidade_anual c"
  "horas_ano (c\<lparr>eletrolisador := e\<rparr>) = horas_ano c"
  "emissoes_rede_kg_mwh (c\<lparr>eletrolisador := e\<rparr>) = emissoes_rede_kg_mwh c"
  by simp_all

lemma producao_degradacao:
  "producao_anual_kg (e\<lparr>degradacao_pct_ano := d\<rparr>) cf h = producao_anual_kg e cf h"
  unfolding producao_anual_kg_def by (simp only: sel_degradacao)

lemma calcular_capex_degradacao:
  "calcular_capex (c\<lparr>eletrolisador := (eletrolisador c)\<lparr>degradacao_pct_ano := d\<rparr>\<rparr>) = calcular_capex c"
  unfolding calcular_capex_def by (simp only: sel_eletrolisador sel_degradacao producao_degradacao)

lemma calcular_opex_fixo_degradacao:
  "calcular_opex_fixo (c\<lparr>eletrolisador := (eletrolisador c)\<lparr>degradacao_pct_ano := d\<rparr>\<rparr>) itens
     = calcular_opex_fixo c itens"
  unfolding calcular_opex_fixo_def by (simp only: sel_eletrolisador)

lemma calcular_energia_var_degradacao:
  "calcular_energia_var (c\<lparr>eletrolisador := (eletrolisador c)\<lparr>degradacao_pct_ano := d\<rparr>\<rparr>) h2
     = calcular_energia_var c h2"
  unfolding calcular_energia_var_def by (simp only: sel_eletrolisador sel_degradacao)

lemma validar_degradacao:
  "validar (c\<lparr>eletrolisador := (eletrolisador c)\<lparr>degradacao_pct_ano := d\<rparr>\<rparr>) = validar c"
  unfolding validar_def by (simp only: sel_eletrolisador)

text \<open>
  Claim C10. The result of \<open>simular\<close> does not depend on the field
  \<open>eletrolisador.degradacao_pct_ano\<close>: two scenarios that differ only in that field give the
  same outcome, the same dictionary or the same exception. The helper
  \<open>consumo_especifico_ano\<close>, the only reader of the field, is not called by \<open>simular\<close>, which
  uses the year-zero \<open>sec_kwh_por_kg\<close> throughout.
\<close>

theorem simular_independent_of_degradacao:
  "simular (c\<lparr>eletrolisador := (eletrolisador c)\<lparr>degradacao_pct_ano := d\<rparr>\<rparr>) = simular c"
  unfolding simular_def
  by (simp only: validar_degradacao calcular_capex_degradacao calcular_opex_fixo_degradacao
        calcular_energia_var_degradacao producao_degradacao sel_eletrolisador sel_degradacao)

section \<open>Facts about the capital recovery factor\<close>

lemma power_eq_1_real:
  fixes x :: real
  assumes "0 < n"
  shows "x ^ n = 1 \<longleftrightarrow> x = 1 \<or> (x = -1 \<and> even n)"
proof
  assume h: "x ^ n = 1"
  then have "\<bar>x\<bar> ^ n = 1 ^ n" by (simp add: power_abs[symmetric])
  then have "\<bar>x\<bar> = 1" using assms power_eq_imp_eq_base[of "\<bar>x\<bar>" n 1] by simp
  then have "x = 1 \<or> x = -1" by linarith
  then show "x = 1 \<or> (x = -1 \<and> even n)"
  proof
    assume "x = 1" then show ?thesis by simp
  next
    assume m: "x = -1"
    have "even n"
    proof (rule ccontr)
      assume "odd n"
      then have "x ^ n = -1" using m by simp
      then show False using h by simp
    qed
    then show ?thesis using m by simp
  qed
next
  assume "x = 1 \<or> (x = -1 \<and> even n)"
  then show "x ^ n = 1" by auto
qed

lemma fator_recuperacao_capital_cases:
  "anos \<le> 0 \<Longrightarrow> fator_recuperacao_capital r anos = Inr 1"
  "0 < anos \<Longrightarrow> r = 0 \<Longrightarrow> fator_recuperacao_capital r anos = Inr (1 / of_int anos)"
  "0 < anos \<Longrightarrow> r \<noteq> 0 \<Longrightarrow> (1 + r) ^ nat anos \<noteq> 1 \<Longrightarrow>
     fator_recuperacao_capital r anos = Inr (r * (1 + r) ^ nat anos / ((1 + r) ^ nat anos - 1))"
  "0 < anos \<Longrightarrow> r \<noteq> 0 \<Longrightarrow> (1 + r) ^ nat anos = 1 \<Longrightarrow>
     fator_recuperacao_capital r anos = Inl ZeroDivisionError"
  by (simp_all add: fator_recuperacao_capital_def fdiv_def)

lemma crf_same: "crf i n = fator_recuperacao_capital i n"
  by (simp add: crf_def fator_recuperacao_capital_def)

lemma fator_recuperacao_capital_raises_iff:
  "fator_recuperacao_capital r anos = Inl e \<longleftrightarrow>
     e = ZeroDivisionError \<and> 0 < anos \<and> r = -2 \<and> even anos"
proof (cases "anos \<le> 0")
  case True
  then show ?thesis by (simp add: fator_recuperacao_capital_cases)
next
  case False
  then have pos: "0 < anos" "0 < nat anos" by simp_all
  have ev: "even (nat anos) \<longleftrightarrow> even anos" using pos by (simp add: even_nat_iff)
  show ?thesis
  proof (cases "r = 0")
    case True
    then show ?thesis using pos by (simp add: fator_recuperacao_capital_cases)
  next
    case False
    have "(1 + r) ^ nat anos = 1 \<longleftrightarrow> r = -2 \<and> even anos"
      using power_eq_1_real[OF pos(2), of "1 + r"] False ev by auto
    then show ?thesis
      using pos False by (cases "(1 + r) ^ nat anos = 1") (auto simp: fator_recuperacao_capital_cases)
  qed
qed

text \<open>
  Claim C3. The capital recovery factor (\<open>fator_recuperacao_capital\<close> of the simplified
  module, \<open>crf\<close> of the lifetime module) returns 1 for \<open>n \<le> 0\<close>, \<open>1 / n\<close> for rate 0 and
  \<open>n > 0\<close>, and otherwise \<open>r (1 + r)^n / ((1 + r)^n - 1)\<close>, and never divides by zero. The
  three cases are \<open>fator_recuperacao_capital_cases\<close>. The last part fails: the guard tests
  \<open>r = 0\<close> only, and at rate \<open>-2\<close> with an even number of periods the divisor
  \<open>(1 + r)^n - 1\<close> is zero, so both functions raise \<open>ZeroDivisionError\<close>. By
  \<open>fator_recuperacao_capital_raises_iff\<close> these are the only inputs that raise in exact
  arithmetic.
\<close>

theorem crf_divides_by_zero:
  "fator_recuperacao_capital (-2) 2 = Inl ZeroDivisionError \<and> crf (-2) 2 = Inl ZeroDivisionError"
  by (simp add: crf_def fator_recuperacao_capital_def fdiv_def)

section \<open>Facts about the CAPEX breakdown\<close>

lemma calcular_capex_armazenamento:
  "valor (projr (calcular_capex c) ! 4) =
     potencia_kw (eletrolisador c)
       * (of_int (horas_ano c) * fator_capacidade_anual c * disponibilidade (eletrolisador c))
       / max (sec_kwh_por_kg (eletrolisador c)) eps12
       / max (of_int (horas_ano c) * disponibilidade (eletrolisador c)) eps12
       * horas_buffer (cae c) * capex_armazenamento_por_kg (cae c)"
  unfolding calcular_capex_def Let_def
  apply (simp only: fdiv_floor producao_anual_kg_eq capacidade_armazenamento_kg_eq bindE_Inr)
  apply (simp add: item_def)
  done

text \<open>
  Claim C6. \<open>calcular_capex\<close> returns exactly ten line items, in the order Eletrolisador,
  Balance of Plant, Interconexao, Compressor, Armazenamento Buffer, Tratamento Agua,
  Instalacao/EPC, Custos do Dono, Contingencia, Total CAPEX. The direct cost is the sum of
  the first six; installation and owner's cost are each a percentage of the direct cost;
  contingency is a percentage of direct + installation + owner's cost; the total is the
  sum of the four. The storage item is annual production divided by the operating hours
  \<open>horas_ano * disponibilidade\<close> floored at \<open>1e-12\<close>, times the buffer hours, times the
  unit storage cost. The floor is the amendment: the claim divides by the operating hours
  themselves.
\<close>

theorem calcular_capex_ten_items:
  "\<exists>el bp ic cp ar ag ins cd ct tot h2 diretos.
     calcular_capex c =
       Inr [item ''Eletrolisador'' el (moeda c),
            item ''Balance of Plant'' bp (moeda c),
            item nome_interconexao ic (moeda c),
            item ''Compressor'' cp (moeda c),
            item ''Armazenamento Buffer'' ar (moeda c),
            item nome_tratamento_agua ag (moeda c),
            item nome_instalacao ins (moeda c),
            item ''Custos do Dono'' cd (moeda c),
            item nome_contingencia ct (moeda c),
            item ''Total CAPEX'' tot (moeda c)]
     \<and> diretos = el + bp + ic + cp + ar + ag
     \<and> ins = diretos * (instalacao_pct (CenarioEntrada.capex c) / 100)
     \<and> cd = diretos * (custos_dono_pct (CenarioEntrada.capex c) / 100)
     \<and> ct = (diretos + ins + cd) * (contingencia_capex_pct (financiamento c) / 100)
     \<and> tot = diretos + ins + cd + ct
     \<and> producao_anual_kg (eletrolisador c) (fator_capacidade_anual c) (horas_ano c) = Inr h2
     \<and> ar = ((h2 / max (of_int (horas_ano c) * disponibilidade (eletrolisador c)) eps12)
               * horas_buffer (cae c)) * capex_armazenamento_por_kg (cae c)"
  unfolding calcular_capex_def Let_def
  apply (simp only: fdiv_floor producao_anual_kg_eq capacidade_armazenamento_kg_eq bindE_Inr)
  apply (intro exI conjI)
         apply (rule refl)+
  done

lemma padrao_grupos:
  "moeda cenario_padrao = ''BRL''"
  "eletrolisador cenario_padrao = \<lparr>EspecificacaoEletrolisador.nome = ''PEM_5MW_referencia'',
        sec_kwh_por_kg = 52, fracao_minima_carga = 0.10, disponibilidade = 0.97,
        potencia_kw = 5000, vida_util_anos = 8, degradacao_pct_ano = 0.5,
        fracao_reposicao_stack_capex = 0.25\<rparr>"
  "bop cenario_padrao = \<lparr>fracao_capex_bop = 0.35, om_fixo_pct_capex_ano = 0.03, om_variavel_por_kg = 0.20\<rparr>"
  "CenarioEntrada.energia cenario_padrao = \<lparr>preco_mwh = 350, demanda_kw_mes = 0, demanda_contratada_kw = 0\<rparr>"
  "agua cenario_padrao = \<lparr>custo_agua_m3 = 5, litros_por_kg = 9\<rparr>"
  "cae cenario_padrao = \<lparr>pressao_entrega_bar = 350, energia_compressao_kwh_por_kg = 2.5,
        capex_armazenamento_por_kg = 400, horas_buffer = 4, secagem_purificacao_por_kg = 0.10\<rparr>"
  "financiamento cenario_padrao = \<lparr>wacc_real = 0.10, inflacao_pct = 4, vida_projeto_anos = 20,
        fracao_divida = 0.60, contingencia_capex_pct = 10\<rparr>"
  "CenarioEntrada.capex cenario_padrao = \<lparr>eletrolisador_capex_por_kw = 700, fracao_bop = 0.35, instalacao_pct = 12,
        custos_dono_pct = 5, interconexao_por_kw = 80, capex_tratamento_agua = 200000,
        compressor_capex_por_kg_h = 1200\<rparr>"
  "fator_capacidade_anual cenario_padrao = 0.85"
  "horas_ano cenario_padrao = 8760"
  "emissoes_rede_kg_mwh cenario_padrao = 80"
  by (simp_all add: cenario_padrao_def)

theorem calcular_capex_storage_counterexample:
  "valor (projr (calcular_capex c6x) ! 4) \<noteq>
     ((projr (producao_anual_kg (eletrolisador c6x) (fator_capacidade_anual c6x) (horas_ano c6x))
         / (of_int (horas_ano c6x) * disponibilidade (eletrolisador c6x)))
        * horas_buffer (cae c6x)) * capex_armazenamento_por_kg (cae c6x)"
  by (simp add: calcular_capex_armazenamento producao_anual_kg_eq c6x_def padrao_grupos eps12_def)

section \<open>Facts about the exceptions of \<open>simular\<close>\<close>

lemma simular_returns:
  assumes "0 \<le> fator_capacidade_anual c" "fator_capacidade_anual c \<le> 1"
    and "fator_recuperacao_capital (wacc_real (financiamento c)) (vida_projeto_anos (financiamento c)) = Inr k"
  shows "\<exists>r. simular c = Inr r"
proof -
  obtain itens where it: "calcular_capex c = Inr itens"
      "valor_total_capex itens = Inr (valor (itens ! 9))"
    using calcular_capex_Inr by blast
  obtain ie iv mwh kpk where ev:
    "calcular_energia_var c (potencia_kw (eletrolisador c)
               * (of_int (horas_ano c) * fator_capacidade_anual c * disponibilidade (eletrolisador c))
               / max (sec_kwh_por_kg (eletrolisador c)) eps12) = (ie, iv, mwh, kpk)"
    using prod_cases4 by blast
  show ?thesis
    using simular_valid[OF assms it calcular_opex_fixo_Inr[OF it(2)] refl ev refl] by blast
qed

lemma simular_raises_iff:
  "simular c = Inl e \<longleftrightarrow>
     (e = ValueError \<and> \<not> (0 \<le> fator_capacidade_anual c \<and> fator_capacidade_anual c \<le> 1)) \<or>
     (e = ZeroDivisionError \<and> 0 \<le> fator_capacidade_anual c \<and> fator_capacidade_anual c \<le> 1 \<and>
      wacc_real (financiamento c) = - 2 \<and> 0 < vida_projeto_anos (financiamento c) \<and>
      even (vida_projeto_anos (financiamento c)))"
proof (cases "0 \<le> fator_capacidade_anual c \<and> fator_capacidade_anual c \<le> 1")
  case False
  then show ?thesis using simular_invalid[of c] by auto
next
  case True
  show ?thesis
  proof (cases "fator_recuperacao_capital (wacc_real (financiamento c)) (vida_projeto_anos (financiamento c))")
    case (Inl e')
    then have "simular c = Inl e'" using True simular_crf_error by blast
    then show ?thesis
      using True Inl fator_recuperacao_capital_raises_iff
        [of "wacc_real (financiamento c)" "vida_projeto_anos (financiamento c)"]
      by auto
  next
    case (Inr k)
    then obtain r where "simular c = Inr r" using True simular_returns by blast
    moreover have "\<not> (wacc_real (financiamento c) = - 2 \<and> 0 < vida_projeto_anos (financiamento c) \<and>
      even (vida_projeto_anos (financiamento c)))"
      using Inr fator_recuperacao_capital_raises_iff
        [of "wacc_real (financiamento c)" "vida_projeto_anos (financiamento c)" ZeroDivisionError]
      by auto
    ultimately show ?thesis using True by auto
  qed
qed

lemma simular_ValueError_iff:
  "simular c = Inl ValueError \<longleftrightarrow>
     \<not> (0 \<le> fator_capacidade_anual c \<and> fator_capacidade_anual c \<le> 1)"
  by (auto simp: simular_raises_iff)

text \<open>
  Claim C5. \<open>simular\<close> raises the validation error exactly when the capacity factor is
  outside [0, 1] (\<open>simular_ValueError_iff\<close>), the check comes first, and for a capacity
  factor in [0, 1] no other step raises, every divisor being floored. The last part fails:
  the divisor \<open>(1 + i)^n - 1\<close> of \<open>fator_recuperacao_capital\<close> is not floored. The default
  scenario with a WACC of \<open>-2\<close> passes the validation and its project life is 20 years, so
  the divisor is \<open>(-1)^20 - 1 = 0\<close> and \<open>simular\<close> raises \<open>ZeroDivisionError\<close>.
\<close>

theorem simular_wacc_raises:
  "validar c5x = Inr () \<and> simular c5x = Inl ZeroDivisionError"
  by (simp add: simular_raises_iff validar_def c5x_def padrao_grupos)

section \<open>Facts about the LCOH of the simplified model\<close>

text \<open>
  Claim C1. Whenever \<open>simular\<close> returns a result for a scenario with a positive stack
  life, a SEC of at least \<open>1e-12\<close> and an annual production \<open>h2 = potencia_kw * (horas_ano *
  fator_capacidade_anual * disponibilidade) / sec_kwh_por_kg\<close> of at least \<open>1e-12\<close>, the
  capital recovery factor has returned a value \<open>k\<close>, and the \<open>lcoh\<close> of the result is (Total
  CAPEX times \<open>k\<close> + the sum of the fixed-OPEX items + the sum of the variable-OPEX items +
  the straight-line stack reserve \<open>potencia_kw * eletrolisador_capex_por_kw *
  fracao_reposicao_stack_capex / vida_util_anos\<close>) divided by \<open>h2\<close>. The two bounds of
  \<open>1e-12\<close> are the amendment: below them the code divides by the floor instead. Nothing
  is said about the scenarios for which \<open>simular\<close> raises.
\<close>

theorem simular_lcoh:
  assumes ret: "simular c = Inr r"
    and sec: "eps12 \<le> sec_kwh_por_kg (eletrolisador c)"
    and vida: "0 < vida_util_anos (eletrolisador c)"
    and h2: "h2 = potencia_kw (eletrolisador c)
                    * (of_int (horas_ano c) * fator_capacidade_anual c * disponibilidade (eletrolisador c))
                    / sec_kwh_por_kg (eletrolisador c)"
    and h2_floor: "eps12 \<le> h2"
  shows "\<exists>k itens tc ie iv mwh kpk.
           fator_recuperacao_capital (wacc_real (financiamento c))
             (vida_projeto_anos (financiamento c)) = Inr k \<and>
           calcular_capex c = Inr itens \<and> valor_total_capex itens = Inr tc \<and>
           calcular_energia_var c h2 = (ie, iv, mwh, kpk) \<and>
           h2_anual_kg r = h2 \<and>
           lcoh r = (tc * k + sum_list (map valor (opex_fixo r)) + sum_list (map valor iv)
                       + (potencia_kw (eletrolisador c) * eletrolisador_capex_por_kw (CenarioEntrada.capex c)
                            * fracao_reposicao_stack_capex (eletrolisador c))
                         / of_int (vida_util_anos (eletrolisador c))) / h2"
proof -
  have cf: "0 \<le> fator_capacidade_anual c" "fator_capacidade_anual c \<le> 1"
    using ret simular_invalid[of c] by auto
  obtain k where crf: "fator_recuperacao_capital (wacc_real (financiamento c))
                (vida_projeto_anos (financiamento c)) = Inr k"
  proof (cases "fator_recuperacao_capital (wacc_real (financiamento c))
                (vida_projeto_anos (financiamento c))")
    case (Inl e)
    then have "simular c = Inl e" using cf simular_crf_error by blast
    then show ?thesis using ret by simp
  next
    case (Inr k)
    then show ?thesis using that by blast
  qed
  obtain itens where it: "calcular_capex c = Inr itens"
      "valor_total_capex itens = Inr (valor (itens ! 9))"
    using calcular_capex_Inr by blast
  obtain ie iv mwh kpk where ev: "calcular_energia_var c h2 = (ie, iv, mwh, kpk)"
    using prod_cases4 by blast
  have m1: "max (sec_kwh_por_kg (eletrolisador c)) eps12 = sec_kwh_por_kg (eletrolisador c)"
    using sec by simp
  have m2: "max h2 eps12 = h2" using h2_floor by simp
  have m3: "max (vida_util_anos (eletrolisador c)) 1 = vida_util_anos (eletrolisador c)"
    using vida by simp
  have h2': "h2 = potencia_kw (eletrolisador c)
               * (of_int (horas_ano c) * fator_capacidade_anual c * disponibilidade (eletrolisador c))
               / max (sec_kwh_por_kg (eletrolisador c)) eps12"
    using h2 m1 by simp
  have pk: "eletrolisador_capex_por_kw (CenarioEntrada.capex c) * potencia_kw (eletrolisador c)
              = potencia_kw (eletrolisador c) * eletrolisador_capex_por_kw (CenarioEntrada.capex c)"
    by simp
  show ?thesis
    using simular_valid[OF cf crf it calcular_opex_fixo_Inr[OF it(2)] h2' ev refl] it ev ret crf
    by (auto simp add: m2 m3 pk)
qed

lemma fator_recuperacao_capital_positive:
  assumes "0 < r" "0 < n"
  shows "fator_recuperacao_capital r n = Inr (r * (1 + r) ^ nat n / ((1 + r) ^ nat n - 1))"
proof -
  have "0 < nat n" using assms by simp
  then have "(1 + r) ^ nat n \<noteq> 1"
    using power_eq_1_real[of "nat n" "1 + r"] assms by auto
  then show ?thesis
    using assms fator_recuperacao_capital_cases(3)[of n r] by simp
qed

theorem simular_lcoh_witness:
  "\<exists>k itens tc ie iv mwh kpk.
     fator_recuperacao_capital (wacc_real (financiamento cenario_padrao))
       (vida_projeto_anos (financiamento cenario_padrao)) = Inr k \<and>
     calcular_capex cenario_padrao = Inr itens \<and> valor_total_capex itens = Inr tc \<and>
     calcular_energia_var cenario_padrao (5000 * (8760 * (85 / 100) * (97 / 100)) / 52)
       = (ie, iv, mwh, kpk) \<and>
     h2_anual_kg (projr (simular cenario_padrao)) = 5000 * (8760 * (85 / 100) * (97 / 100)) / 52 \<and>
     lcoh (projr (simular cenario_padrao))
       = (tc * k + sum_list (map valor (opex_fixo (projr (simular cenario_padrao))))
            + sum_list (map valor iv)
            + (potencia_kw (eletrolisador cenario_padrao)
                 * eletrolisador_capex_por_kw (CenarioEntrada.capex cenario_padrao)
                 * fracao_reposicao_stack_capex (eletrolisador cenario_padrao))
              / of_int (vida_util_anos (eletrolisador cenario_padrao)))
         / (5000 * (8760 * (85 / 100) * (97 / 100)) / 52)"
proof -
  have cf: "0 \<le> fator_capacidade_anual cenario_padrao" "fator_capacidade_anual cenario_padrao \<le> 1"
    by (simp_all add: padrao_grupos)
  have crf: "fator_recuperacao_capital (wacc_real (financiamento cenario_padrao))
               (vida_projeto_anos (financiamento cenario_padrao))
             = Inr ((1 / 10) * (1 + 1 / 10) ^ nat 20 / ((1 + 1 / 10) ^ nat 20 - 1))"
    using fator_recuperacao_capital_positive[of "1 / 10" 20] by (simp add: padrao_grupos)
  have ret: "simular cenario_padrao = Inr (projr (simular cenario_padrao))"
    using simular_returns[OF cf crf] by auto
  have sec: "eps12 \<le> sec_kwh_por_kg (eletrolisador cenario_padrao)"
    by (simp add: padrao_grupos eps12_def)
  have vida: "0 < vida_util_anos (eletrolisador cenario_padrao)"
    by (simp add: padrao_grupos)
  have h2: "5000 * (8760 * (85 / 100) * (97 / 100)) / 52
              = potencia_kw (eletrolisador cenario_padrao)
                  * (of_int (horas_ano cenario_padrao) * fator_capacidade_anual cenario_padrao
                       * disponibilidade (eletrolisador cenario_padrao))
                  / sec_kwh_por_kg (eletrolisador cenario_padrao)"
    by (simp add: padrao_grupos)
  have fl: "eps12 \<le> 5000 * (8760 * (85 / 100) * (97 / 100)) / (52::real)"
    by (simp add: eps12_def)
  from simular_lcoh[OF ret sec vida h2 fl] show ?thesis .
qed

lemma calcular_capex_total:
  "valor (projr (calcular_capex c) ! 9) =
     (let p = potencia_kw (eletrolisador c);
          diretos = p * eletrolisador_capex_por_kw (CenarioEntrada.capex c)
            + p * eletrolisador_capex_por_kw (CenarioEntrada.capex c) * fracao_bop (CenarioEntrada.capex c)
            + p * interconexao_por_kw (CenarioEntrada.capex c)
            + p / max (sec_kwh_por_kg (eletrolisador c)) eps12
                * compressor_capex_por_kg_h (CenarioEntrada.capex c)
            + p * (of_int (horas_ano c) * fator_capacidade_anual c * disponibilidade (eletrolisador c))
                / max (sec_kwh_por_kg (eletrolisador c)) eps12
                / max (of_int (horas_ano c) * disponibilidade (eletrolisador c)) eps12
                * horas_buffer (cae c) * capex_armazenamento_por_kg (cae c)
            + capex_tratamento_agua (CenarioEntrada.capex c);
          ins = diretos * (instalacao_pct (CenarioEntrada.capex c) / 100);
          cd = diretos * (custos_dono_pct (CenarioEntrada.capex c) / 100)
      in diretos + ins + cd + (diretos + ins + cd) * (contingencia_capex_pct (financiamento c) / 100))"
  unfolding calcular_capex_def Let_def
  apply (simp only: fdiv_floor producao_anual_kg_eq capacidade_armazenamento_kg_eq bindE_Inr)
  apply (simp add: item_def)
  done

lemma c1x_grupos:
  "moeda c1x = ''BRL''"
  "eletrolisador c1x = \<lparr>EspecificacaoEletrolisador.nome = ''PEM_5MW_referencia'',
        sec_kwh_por_kg = 52, fracao_minima_carga = 0.10, disponibilidade = 0.97,
        potencia_kw = 1 / 10 ^ 20, vida_util_anos = 8, degradacao_pct_ano = 0.5,
        fracao_reposicao_stack_capex = 0.25\<rparr>"
  "bop c1x = bop cenario_padrao"
  "CenarioEntrada.energia c1x = CenarioEntrada.energia cenario_padrao"
  "agua c1x = agua cenario_padrao"
  "cae c1x = cae cenario_padrao"
  "financiamento c1x = financiamento cenario_padrao"
  "CenarioEntrada.capex c1x = CenarioEntrada.capex cenario_padrao"
  "fator_capacidade_anual c1x = 0.85"
  "horas_ano c1x = 8760"
  "emissoes_rede_kg_mwh c1x = 80"
  by (simp_all add: c1x_def padrao_grupos)

lemma c1x_total_pos: "0 < valor (projr (calcular_capex c1x) ! 9)"
  by (simp add: calcular_capex_total c1x_grupos padrao_grupos eps12_def Let_def)

lemma div_floor_ne:
  fixes N h e :: real
  assumes "0 < N" "0 < h" "h < e"
  shows "N / max h e \<noteq> N / h"
proof -
  have m: "max h e = e" using assms by simp
  have "N / e < N / h" using assms by (simp add: frac_less2)
  then show ?thesis unfolding m by linarith
qed

theorem simular_lcoh_counterexample:
  "0 \<le> fator_capacidade_anual c1x \<and> fator_capacidade_anual c1x \<le> 1 \<and>
   0 < sec_kwh_por_kg (eletrolisador c1x) \<and> 0 < potencia_kw (eletrolisador c1x) \<and>
   0 < disponibilidade (eletrolisador c1x) \<and> 0 < vida_util_anos (eletrolisador c1x) \<and>
   0 < vida_projeto_anos (financiamento c1x) \<and>
   lcoh (projr (simular c1x)) \<noteq>
     (valor (projr (calcular_capex c1x) ! 9)
        * projr (fator_recuperacao_capital (wacc_real (financiamento c1x))
                   (vida_projeto_anos (financiamento c1x)))
      + sum_list (map valor (opex_fixo (projr (simular c1x))))
      + sum_list (map valor (fst (snd (calcular_energia_var c1x (h2_anual_kg (projr (simular c1x)))))))
      + (potencia_kw (eletrolisador c1x) * eletrolisador_capex_por_kw (CenarioEntrada.capex c1x)
           * fracao_reposicao_stack_capex (eletrolisador c1x))
        / of_int (vida_util_anos (eletrolisador c1x)))
     / (potencia_kw (eletrolisador c1x)
          * (of_int (horas_ano c1x) * fator_capacidade_anual c1x * disponibilidade (eletrolisador c1x))
          / sec_kwh_por_kg (eletrolisador c1x))"
proof -
  define h2 :: real where "h2 = 1 / 10 ^ 20 * (8760 * (85 / 100) * (97 / 100)) / 52"
  define k :: real where "k = (1 / 10) * (1 + 1 / 10) ^ nat 20 / ((1 + 1 / 10) ^ nat 20 - 1)"
  define rep :: real where "rep = 1 / 10 ^ 20 * 700 * (25 / 100) / 8"
  have hyps: "0 \<le> fator_capacidade_anual c1x" "fator_capacidade_anual c1x \<le> 1"
    "0 < sec_kwh_por_kg (eletrolisador c1x)" "0 < potencia_kw (eletrolisador c1x)"
    "0 < disponibilidade (eletrolisador c1x)" "0 < vida_util_anos (eletrolisador c1x)"
    "0 < vida_projeto_anos (financiamento c1x)"
    by (simp_all add: c1x_grupos padrao_grupos)
  have crf: "fator_recuperacao_capital (wacc_real (financiamento c1x))
               (vida_projeto_anos (financiamento c1x)) = Inr k"
    unfolding k_def using fator_recuperacao_capital_positive[of "1 / 10" 20]
    by (simp add: c1x_grupos padrao_grupos)
  have kpos: "0 < k"
  proof -
    have "1 < (1 + 1 / 10 :: real) ^ nat 20" by (rule one_less_power) simp_all
    then show ?thesis unfolding k_def by simp
  qed
  obtain itens where it: "calcular_capex c1x = Inr itens"
      "valor_total_capex itens = Inr (valor (itens ! 9))"
    using calcular_capex_Inr by blast
  have tc: "valor (projr (calcular_capex c1x) ! 9) = valor (itens ! 9)" using it by simp
  have tcpos: "0 < valor (itens ! 9)" using c1x_total_pos tc by simp
  have h2eq: "h2 = potencia_kw (eletrolisador c1x)
               * (of_int (horas_ano c1x) * fator_capacidade_anual c1x * disponibilidade (eletrolisador c1x))
               / max (sec_kwh_por_kg (eletrolisador c1x)) eps12"
    unfolding h2_def by (simp add: c1x_grupos eps12_def)
  have h2claim: "potencia_kw (eletrolisador c1x)
          * (of_int (horas_ano c1x) * fator_capacidade_anual c1x * disponibilidade (eletrolisador c1x))
          / sec_kwh_por_kg (eletrolisador c1x) = h2"
    unfolding h2_def by (simp add: c1x_grupos)
  have h2pos: "0 < h2" "h2 < eps12" unfolding h2_def by (simp_all add: eps12_def)
  obtain ie iv mwh kpk where ev: "calcular_energia_var c1x h2 = (ie, iv, mwh, kpk)"
    using prod_cases4 by blast
  have ivpos: "0 \<le> sum_list (map valor iv)"
  proof -
    have "iv = fst (snd (calcular_energia_var c1x h2))" using ev by simp
    then show ?thesis
      using h2pos(1)
      by (simp add: calcular_energia_var_def Let_def item_def c1x_grupos padrao_grupos)
  qed
  have repeq: "rep = (eletrolisador_capex_por_kw (CenarioEntrada.capex c1x) * potencia_kw (eletrolisador c1x))
                  * fracao_reposicao_stack_capex (eletrolisador c1x)
                / of_int (max (vida_util_anos (eletrolisador c1x)) 1)"
    unfolding rep_def by (simp add: c1x_grupos padrao_grupos)
  have repclaim: "(potencia_kw (eletrolisador c1x) * eletrolisador_capex_por_kw (CenarioEntrada.capex c1x)
           * fracao_reposicao_stack_capex (eletrolisador c1x))
        / of_int (vida_util_anos (eletrolisador c1x)) = rep"
    unfolding rep_def by (simp add: c1x_grupos padrao_grupos)
  have reppos: "0 < rep" unfolding rep_def by simp
  define fx where "fx = [item ''O&M Fixo (% CAPEX)'' (valor (itens ! 9) * om_fixo_pct_capex_ano (bop c1x)) (moeda c1x),
          item ''Custo Demanda (anual)''
            (if demanda_kw_mes (CenarioEntrada.energia c1x) > 0
             then demanda_kw_mes (CenarioEntrada.energia c1x)
                    * demanda_contratada_kw (CenarioEntrada.energia c1x) * 12
             else 0) (moeda c1x)]"
  have fxeq: "calcular_opex_fixo c1x itens = Inr fx"
    unfolding fx_def by (rule calcular_opex_fixo_Inr[OF it(2)])
  have fxpos: "0 \<le> sum_list (map valor fx)"
    unfolding fx_def using tcpos by (simp add: item_def c1x_grupos padrao_grupos)
  define N where "N = valor (itens ! 9) * k + sum_list (map valor fx) + sum_list (map valor iv) + rep"
  have Npos: "0 < N"
    unfolding N_def using tcpos kpos fxpos ivpos reppos
    by (simp add: add_pos_nonneg add_nonneg_pos)
  have sim: "simular c1x =
           Inr \<lparr>lcoh = N / max h2 eps12,
                h2_anual_kg = h2, mwh_anual = mwh,
                emissoes_kgco2_por_kg = (kpk / 1000) * emissoes_rede_kg_mwh c1x,
                capex = itens, opex_fixo = fx,
                opex_variavel = iv @ [item nome_reposicao_stack rep (moeda c1x)],
                energia = ie\<rparr>"
    unfolding N_def by (rule simular_valid[OF hyps(1,2) crf it fxeq h2eq ev repeq])
  have L: "lcoh (projr (simular c1x)) = N / max h2 eps12" using sim by simp
  have R: "(valor (projr (calcular_capex c1x) ! 9)
        * projr (fator_recuperacao_capital (wacc_real (financiamento c1x))
                   (vida_projeto_anos (financiamento c1x)))
      + sum_list (map valor (opex_fixo (projr (simular c1x))))
      + sum_list (map valor (fst (snd (calcular_energia_var c1x (h2_anual_kg (projr (simular c1x)))))))
      + (potencia_kw (eletrolisador c1x) * eletrolisador_capex_por_kw (CenarioEntrada.capex c1x)
           * fracao_reposicao_stack_capex (eletrolisador c1x))
        / of_int (vida_util_anos (eletrolisador c1x))) = N"
    unfolding N_def repclaim tc crf by (simp add: sim ev)
  have ne: "N / max h2 eps12 \<noteq> N / h2" by (rule div_floor_ne[OF Npos h2pos])
  have "lcoh (projr (simular c1x)) \<noteq>
     (valor (projr (calcular_capex c1x) ! 9)
        * projr (fator_recuperacao_capital (wacc_real (financiamento c1x))
                   (vida_projeto_anos (financiamento c1x)))
      + sum_list (map valor (opex_fixo (projr (simular c1x))))
      + sum_list (map valor (fst (snd (calcular_energia_var c1x (h2_anual_kg (projr (simular c1x)))))))
      + (potencia_kw (eletrolisador c1x) * eletrolisador_capex_por_kw (CenarioEntrada.capex c1x)
           * fracao_reposicao_stack_capex (eletrolisador c1x))
        / of_int (vida_util_anos (eletrolisador c1x)))
     / (potencia_kw (eletrolisador c1x)
          * (of_int (horas_ano c1x) * fator_capacidade_anual c1x * disponibilidade (eletrolisador c1x))
          / sec_kwh_por_kg (eletrolisador c1x))"
    unfolding L R h2claim by (rule ne)
  then show ?thesis using hyps by blast
qed

section \<open>Facts about the stack replacement count\<close>

lemma stack_replacements_eq:
  "stack_replacements e h d = Inr \<lfloor>of_int e * h / max d eps12\<rfloor>"
  by (simp add: stack_replacements_def fdiv_floor bindE_Inr)





section \<open>Facts about the loop of the lifetime-average SEC\<close>

lemma tol9_pos: "0 < tol9"
  by (simp add: tol9_def)


lemma tol9_less_step: "tol9 < step"
  by (simp add: tol9_def step_def)

lemma sec_body_sel:
  assumes "b = min step (min (T - hours_counted st) (hours_until_reset st))"
  shows "hours_counted (sec_body sec0 degr T d st) = hours_counted st + b"
    and "sec_sum (sec_body sec0 degr T d st)
           = sec_sum st + (current_sec st + current_sec st * (1 + degr / 100 / 1000 * b)) / 2 * b"
    and "hours_until_reset (sec_body sec0 degr T d st)
           = (if hours_until_reset st - b \<le> tol9 \<and> hours_counted st + b < T - tol9
              then d else hours_until_reset st - b)"
    and "current_sec (sec_body sec0 degr T d st)
           = (if hours_until_reset st - b \<le> tol9 \<and> hours_counted st + b < T - tol9
              then sec0 else current_sec st * (1 + degr / 100 / 1000 * b))"
proof -
  have eq: "sec_body sec0 degr T d st =
     (if hours_until_reset st - b \<le> tol9 \<and> hours_counted st + b < T - tol9
      then \<lparr>sec_sum = sec_sum st + (current_sec st + current_sec st * (1 + degr / 100 / 1000 * b)) / 2 * b,
            hours_counted = hours_counted st + b,
            hours_until_reset = d,
            current_sec = sec0\<rparr>
      else \<lparr>sec_sum = sec_sum st + (current_sec st + current_sec st * (1 + degr / 100 / 1000 * b)) / 2 * b,
            hours_counted = hours_counted st + b,
            hours_until_reset = hours_until_reset st - b,
            current_sec = current_sec st * (1 + degr / 100 / 1000 * b)\<rparr>)"
    unfolding assms sec_body_def Let_def sec_state.simps by (rule refl)
  show "hours_counted (sec_body sec0 degr T d st) = hours_counted st + b"
    and "sec_sum (sec_body sec0 degr T d st)
           = sec_sum st + (current_sec st + current_sec st * (1 + degr / 100 / 1000 * b)) / 2 * b"
    and "hours_until_reset (sec_body sec0 degr T d st)
           = (if hours_until_reset st - b \<le> tol9 \<and> hours_counted st + b < T - tol9
              then d else hours_until_reset st - b)"
    and "current_sec (sec_body sec0 degr T d st)
           = (if hours_until_reset st - b \<le> tol9 \<and> hours_counted st + b < T - tol9
              then sec0 else current_sec st * (1 + degr / 100 / 1000 * b))"
    unfolding eq by simp_all
qed

text \<open>With a durability that is not positive the loop never ends: the block is the
  durability itself, the counted hours do not grow, and the countdown is reset each time.\<close>

lemma sec_loop_diverges:
  assumes "d \<le> 0" "tol9 < T" "hours_until_reset st = d" "hours_counted st \<le> 0"
  shows "sec_loop sec0 degr T d st = None"
proof (rule ccontr)
  assume "sec_loop sec0 degr T d st \<noteq> None"
  then obtain y where y: "sec_loop sec0 degr T d st = Some y" by auto
  have step: "\<not> (d' \<le> 0 \<and> tol9 < T' \<and> hours_until_reset s = d' \<and> hours_counted s \<le> 0)"
    if IH: "\<And>a b c e s' z. f a b c e s' = Some z \<Longrightarrow>
               \<not> (e \<le> 0 \<and> tol9 < c \<and> hours_until_reset s' = e \<and> hours_counted s' \<le> 0)"
      and eq: "(if hours_counted s < T' - tol9
                then f s0 g T' d' (sec_body s0 g T' d' s) else Some s) = Some z"
    for f s0 g T' d' s z
  proof
    assume inv: "d' \<le> 0 \<and> tol9 < T' \<and> hours_until_reset s = d' \<and> hours_counted s \<le> 0"
    then have c: "hours_counted s < T' - tol9" by linarith
    have b: "d' = min step (min (T' - hours_counted s) (hours_until_reset s))"
      using inv tol9_less_step tol9_pos by (simp add: min_def)
    have "f s0 g T' d' (sec_body s0 g T' d' s) = Some z"
      using eq c by simp
    from IH[OF this] show False
      using inv c tol9_pos by (simp add: sec_body_sel[OF b])
  qed
  have "\<not> (d \<le> 0 \<and> tol9 < T \<and> hours_until_reset st = d \<and> hours_counted st \<le> 0)"
    by (rule sec_loop.raw_induct[where P = "\<lambda>s0 g T' d' s z.
          \<not> (d' \<le> 0 \<and> tol9 < T' \<and> hours_until_reset s = d' \<and> hours_counted s \<le> 0)", OF step y])
  then show False using assms by simp
qed


section \<open>Facts about the lifetime-average SEC\<close>

lemma average_sec_unfold:
  "average_sec_kwh_per_kg_over_life sec0 degr e oh d =
     map_option (\<lambda>st. Inr (sec_sum st / max (of_int e * oh) eps12))
       (sec_loop sec0 degr (of_int e * oh) d
          \<lparr>sec_sum = 0, hours_counted = 0, hours_until_reset = d, current_sec = sec0\<rparr>)"
  by (simp add: average_sec_kwh_per_kg_over_life_def stack_replacements_eq fdiv_floor Let_def)

lemma average_sec_diverges:
  assumes "d \<le> 0" "tol9 < of_int e * oh"
  shows "average_sec_kwh_per_kg_over_life sec0 degr e oh d = None"
  unfolding average_sec_unfold
  using sec_loop_diverges[OF assms, of "\<lparr>sec_sum = 0, hours_counted = 0, hours_until_reset = d,
      current_sec = sec0\<rparr>" sec0 degr]
  by simp

lemma average_sec_short_horizon:
  assumes "of_int e * oh \<le> tol9"
  shows "average_sec_kwh_per_kg_over_life sec0 degr e oh d = Some (Inr 0)"
proof -
  have "sec_loop sec0 degr (of_int e * oh) d
          \<lparr>sec_sum = 0, hours_counted = 0, hours_until_reset = d, current_sec = sec0\<rparr>
        = Some \<lparr>sec_sum = 0, hours_counted = 0, hours_until_reset = d, current_sec = sec0\<rparr>"
    using assms by (subst sec_loop.simps) simp
  then show ?thesis unfolding average_sec_unfold by simp
qed





section \<open>Facts about \<open>simulate_eho\<close>\<close>

lemma simulate_eho_unfold:
  "simulate_eho s =
     (case average_sec_kwh_per_kg_over_life (sec_start_kwh_per_kg (electrolyser s))
             (degradation_pct_per_1000h (electrolyser s)) (economic_life_years (economics s))
             (operating_hours_per_year (ops s) * availability (ops s))
             (stack_durability_h (electrolyser s)) of
        None \<Rightarrow> None
      | Some (Inl err) \<Rightarrow> Some (Inl err)
      | Some (Inr avg) \<Rightarrow>
          Some (simulate_eho_rest s (operating_hours_per_year (ops s) * availability (ops s))
                  \<lfloor>of_int (economic_life_years (economics s))
                      * (operating_hours_per_year (ops s) * availability (ops s))
                      / max (stack_durability_h (electrolyser s)) eps12\<rfloor> avg))"
  by (simp add: simulate_eho_def stack_replacements_eq Let_def)

lemma simulate_eho_diverges:
  assumes "stack_durability_h (electrolyser s) \<le> 0"
    and "tol9 < of_int (economic_life_years (economics s))
                  * (operating_hours_per_year (ops s) * availability (ops s))"
  shows "simulate_eho s = None"
  unfolding simulate_eho_unfold by (simp add: average_sec_diverges[OF assms])

lemma simulate_eho_rest_zero_life:
  assumes "economic_life_years (economics s) = 0"
  shows "simulate_eho_rest s oh n avg = Inl ZeroDivisionError"
  using assms
  by (simp add: simulate_eho_rest_def capacity_kg_per_h_def fdiv_floor bindE_Inr bindE_Inl
        annualised_capex_eur_per_year_def crf_def hydrogen_output_kg_def fdiv_def Let_def)

lemma simulate_eho_zero_life:
  assumes "economic_life_years (economics s) = 0"
  shows "simulate_eho s = Some (Inl ZeroDivisionError)"
  unfolding simulate_eho_unfold
  using average_sec_short_horizon[of "economic_life_years (economics s)"
      "operating_hours_per_year (ops s) * availability (ops s)"] assms tol9_pos
  by (simp add: simulate_eho_rest_zero_life)

lemma eho_padrao_grupos:
  "electrolyser eho_padrao = \<lparr>power_kw = 5000, sec_start_kwh_per_kg = 52.4, stack_durability_h = 80000,
        degradation_pct_per_1000h = 0.12, compression_kwh_per_kg = 2.5\<rparr>"
  "economics eho_padrao = \<lparr>economic_life_years = 25, discount_rate = 0.06,
        other_opex_pct_capex_per_year = 0.03, stack_replacement_pct_capex = 0.25,
        electricity_price_eur_per_mwh = 50, grid_fees_eur_per_mwh = 0,
        electricity_taxes_eur_per_mwh = 0\<rparr>"
  "EHOScenario.capex eho_padrao = \<lparr>electrolyser_capex_eur_per_kw = 700, installed_power_kw = 5000\<rparr>"
  "subs eho_padrao = \<lparr>capex_subsidy_eur_per_kw = 0, h2_premium_eur_per_kg = 0,
        reduction_grid_or_tax_eur_per_mwh = 0, oxygen_sale_price_eur_per_ton = 0\<rparr>"
  "ops eho_padrao = \<lparr>operating_hours_per_year = 4000, availability = 1\<rparr>"
  "currency eho_padrao = ''EUR''"
  by (simp_all add: eho_padrao_def)

text \<open>
  Claim C2. \<open>simulate_eho\<close> ends and returns a result without raising for every numeric
  input, in particular for a zero or negative \<open>stack_durability_h\<close> and a non-positive
  economic life. The code does not: with the default scenario and a durability of zero the
  loop of \<open>average_sec_kwh_per_kg_over_life\<close> never ends (its block is zero hours long), and
  with an economic life of zero years \<open>h2_total_kg / economic_life_years\<close> raises
  \<open>ZeroDivisionError\<close>.
\<close>

theorem simulate_eho_fails:
  "simulate_eho eho_durability_zero = None \<and>
   simulate_eho eho_life_zero = Some (Inl ZeroDivisionError)"
proof
  show "simulate_eho eho_durability_zero = None"
    by (rule simulate_eho_diverges)
      (simp_all add: eho_durability_zero_def eho_padrao_grupos tol9_def)
  show "simulate_eho eho_life_zero = Some (Inl ZeroDivisionError)"
    by (rule simulate_eho_zero_life) (simp add: eho_life_zero_def eho_padrao_grupos)
qed

end
